theory Spec2Isabelle
  imports Main
begin

section \<open>Data model\<close>

text \<open>
  Identifiers are UUIDs, which the program only compares and stores; timestamps are
  instants on a discrete clock. Both are opaque to the code, so the model takes natural
  numbers for identifiers and integers for instants.
\<close>

type_synonym uuid = nat
type_synonym datetime = int

text \<open>
  One row of \<^verbatim>\<open>conversations_by_user\<close>, declared in \<^verbatim>\<open>create_tables\<close> with
  \<^verbatim>\<open>PRIMARY KEY (user_id, last_message_ts)\<close>.
\<close>

record membership =
  user_id :: uuid
  last_message_ts :: datetime
  conversation_id :: uuid
  peer_id :: uuid

text \<open>
  One row of the message table. The queries of \<^verbatim>\<open>MessageModel\<close> name the columns
  \<^verbatim>\<open>message_id, conversation_id, sender_id, content, timestamp\<close>; the only message table
  that \<^verbatim>\<open>create_tables\<close> declares has \<^verbatim>\<open>PRIMARY KEY (conversation_id, message_ts)\<close>, and
  the model gives the table of the queries that key, on the conversation and the timestamp.
\<close>

record message =
  message_id :: uuid
  msg_conversation_id :: uuid
  sender_id :: uuid
  content :: string
  timestamp :: datetime

record db =
  conversations_by_user :: "membership list"
  messages :: "message list"

text \<open>The dictionaries that the two scans return, one per row.\<close>

record conversation_item =
  item_conversation_id :: uuid
  item_peer_id :: uuid
  item_last_message_ts :: datetime

record message_item =
  item_message_id :: uuid
  item_sender_id :: uuid
  item_content :: string
  item_timestamp :: datetime

section \<open>Exceptions\<close>

text \<open>
  Every exception that the modelled code can raise. \<open>UnexpectedKeyword f k\<close> and
  \<open>MissingArgument f p\<close> are the two \<^verbatim>\<open>TypeError\<close>s of a call that does not fit the
  signature of \<open>f\<close>. \<open>HTTPException s d w\<close> has status \<open>s\<close> and a detail that is the text
  \<open>d\<close> followed, when \<open>w\<close> is \<open>Some e\<close>, by \<^verbatim>\<open>str(e)\<close> of the exception it was made from.
\<close>

datatype exn =
    UnexpectedKeyword string string
  | MissingArgument string string
  | AttributeError string string
  | ValidationError string "string list"
  | InvalidRequest string
  | HTTPException nat string "exn option"

definition HTTP_404_NOT_FOUND :: nat where
  "HTTP_404_NOT_FOUND = 404"

definition HTTP_500_INTERNAL_SERVER_ERROR :: nat where
  "HTTP_500_INTERNAL_SERVER_ERROR = 500"

text \<open>
  \<^verbatim>\<open>try: ... except Exception as e: raise HTTPException(500, detail=f"{prefix}{str(e)}")\<close>.
  \<^verbatim>\<open>HTTPException\<close> is itself an \<^verbatim>\<open>Exception\<close>, so the handler catches it as well.
\<close>

definition except_Exception :: "string \<Rightarrow> exn + 'a \<Rightarrow> exn + 'a" where
  "except_Exception prefix r =
     (case r of
        Inl e \<Rightarrow> Inl (HTTPException HTTP_500_INTERNAL_SERVER_ERROR prefix (Some e))
      | Inr v \<Rightarrow> Inr v)"

section \<open>The store\<close>

text \<open>
  The storage client is not part of the sources; each statement that the code sends is
  read as the relational operation it denotes on the two tables. A table is the list of
  its rows in the order in which the store scans them.

  \<^verbatim>\<open>INSERT\<close> writes the row at its primary key, replacing a row that has the same key.
\<close>

definition insert_membership :: "membership \<Rightarrow> membership list \<Rightarrow> membership list" where
  "insert_membership r tbl =
     filter (\<lambda>x. \<not> (user_id x = user_id r \<and> last_message_ts x = last_message_ts r)) tbl @ [r]"

definition insert_message :: "message \<Rightarrow> message list \<Rightarrow> message list" where
  "insert_message r tbl =
     filter (\<lambda>x. \<not> (msg_conversation_id x = msg_conversation_id r \<and> timestamp x = timestamp r)) tbl
       @ [r]"

text \<open>\<^verbatim>\<open>ORDER BY c DESC\<close>, for a column \<open>c\<close> of instants.\<close>

definition order_by_desc :: "('a \<Rightarrow> datetime) \<Rightarrow> 'a list \<Rightarrow> 'a list" where
  "order_by_desc c rows = sort_key (\<lambda>r. - c r) rows"

text \<open>\<^verbatim>\<open>LIMIT n\<close> with a bound parameter: the store rejects a limit that is not positive.\<close>

definition limit_rows :: "int \<Rightarrow> 'a list \<Rightarrow> exn + 'a list" where
  "limit_rows n rows =
     (if n \<le> 0 then Inl (InvalidRequest ''LIMIT must be strictly positive'')
      else Inr (take (nat n) rows))"

section \<open>ConversationModel\<close>

definition get_user_conversations ::
  "uuid \<Rightarrow> int \<Rightarrow> datetime option \<Rightarrow> datetime \<Rightarrow> db \<Rightarrow> exn + conversation_item list" where
  "get_user_conversations uid limit before_ts utcnow d =
     (let bound = (case before_ts of Some b \<Rightarrow> b | None \<Rightarrow> utcnow) in
      case limit_rows limit
             (order_by_desc last_message_ts
                (filter (\<lambda>r. user_id r = uid \<and> last_message_ts r < bound)
                   (conversations_by_user d))) of
        Inl e \<Rightarrow> Inl e
      | Inr result \<Rightarrow>
          Inr (map (\<lambda>row. \<lparr>item_conversation_id = conversation_id row,
                            item_peer_id = peer_id row,
                            item_last_message_ts = last_message_ts row\<rparr>) result))"

text \<open>The dictionary \<^verbatim>\<open>{}\<close> of the source is \<open>None\<close>.\<close>

definition get_conversation :: "uuid \<Rightarrow> db \<Rightarrow> (uuid \<times> uuid) option" where
  "get_conversation cid d =
     (case filter (\<lambda>r. conversation_id r = cid) (conversations_by_user d) of
        [] \<Rightarrow> None
      | row # _ \<Rightarrow> Some (conversation_id row, peer_id row))"

text \<open>
  \<open>uuid4\<close> and \<open>utcnow\<close> are the values that \<^verbatim>\<open>uuid.uuid4()\<close> and
  \<^verbatim>\<open>datetime.utcnow()\<close> return in this call.
\<close>

definition create_or_get_conversation :: "uuid \<Rightarrow> uuid \<Rightarrow> uuid \<Rightarrow> datetime \<Rightarrow> db \<Rightarrow> uuid \<times> db" where
  "create_or_get_conversation user_a user_b uuid4 utcnow d =
     (case take 1 (filter (\<lambda>r. user_id r = user_a \<or> user_id r = user_b)
                     (conversations_by_user d)) of
        row # _ \<Rightarrow> (conversation_id row, d)
      | [] \<Rightarrow>
          (let d1 = d\<lparr>conversations_by_user :=
                        insert_membership
                          \<lparr>user_id = user_a, last_message_ts = utcnow,
                           conversation_id = uuid4, peer_id = user_b\<rparr>
                          (conversations_by_user d)\<rparr>;
               d2 = d1\<lparr>conversations_by_user :=
                         insert_membership
                           \<lparr>user_id = user_b, last_message_ts = utcnow,
                            conversation_id = uuid4, peer_id = user_a\<rparr>
                           (conversations_by_user d1)\<rparr>
           in (uuid4, d2)))"

section \<open>MessageModel\<close>

text \<open>
  The \<^verbatim>\<open>UPDATE\<close> of \<^verbatim>\<open>create_message\<close> assigns \<^verbatim>\<open>last_message_ts\<close> in every row
  whose \<^verbatim>\<open>conversation_id\<close> is the given one.
\<close>

definition update_last_message_ts :: "datetime \<Rightarrow> uuid \<Rightarrow> membership list \<Rightarrow> membership list" where
  "update_last_message_ts ts cid tbl =
     map (\<lambda>r. if conversation_id r = cid then r\<lparr>last_message_ts := ts\<rparr> else r) tbl"

definition create_message ::
  "uuid \<Rightarrow> uuid \<Rightarrow> string \<Rightarrow> datetime option \<Rightarrow> uuid \<Rightarrow> datetime \<Rightarrow> db \<Rightarrow> uuid \<times> db" where
  "create_message sender cid text ts_opt uuid4 utcnow d =
     (let mid = uuid4;
          ts = (case ts_opt of Some t \<Rightarrow> t | None \<Rightarrow> utcnow);
          d1 = d\<lparr>messages :=
                   insert_message
                     \<lparr>message_id = mid, msg_conversation_id = cid, sender_id = sender,
                      content = text, timestamp = ts\<rparr>
                     (messages d)\<rparr>;
          d2 = d1\<lparr>conversations_by_user :=
                    update_last_message_ts ts cid (conversations_by_user d1)\<rparr>
      in (mid, d2))"

definition get_conversation_messages ::
  "uuid \<Rightarrow> int \<Rightarrow> datetime option \<Rightarrow> datetime \<Rightarrow> db \<Rightarrow> exn + message_item list" where
  "get_conversation_messages cid limit before_ts utcnow d =
     (let bound = (case before_ts of Some b \<Rightarrow> b | None \<Rightarrow> utcnow) in
      case limit_rows limit
             (order_by_desc timestamp
                (filter (\<lambda>r. msg_conversation_id r = cid \<and> timestamp r < bound) (messages d))) of
        Inl e \<Rightarrow> Inl e
      | Inr result \<Rightarrow>
          Inr (map (\<lambda>row. \<lparr>item_message_id = message_id row,
                            item_sender_id = sender_id row,
                            item_content = content row,
                            item_timestamp = timestamp row\<rparr>) result))"

definition get_messages_before_timestamp ::
  "uuid \<Rightarrow> datetime \<Rightarrow> int \<Rightarrow> datetime \<Rightarrow> db \<Rightarrow> exn + message_item list" where
  "get_messages_before_timestamp cid before_timestamp limit utcnow d =
     get_conversation_messages cid limit (Some before_timestamp) utcnow d"

section \<open>Calls with keyword arguments\<close>

text \<open>
  The controllers call the model with keyword arguments. A signature lists the parameters
  with their defaults (\<open>None\<close> for a parameter without one). Binding fails with a
  \<^verbatim>\<open>TypeError\<close> on a keyword that the signature does not declare, then on a parameter
  without default that no keyword supplies.
\<close>

datatype pyval = PNone | PUuid uuid | PStr string | PInt int | PDatetime datetime

text \<open>An exception ends the computation; a value is passed on.\<close>

definition bind_result :: "exn + 'a \<Rightarrow> ('a \<Rightarrow> exn + 'b) \<Rightarrow> exn + 'b" where
  "bind_result r f = (case r of Inl e \<Rightarrow> Inl e | Inr v \<Rightarrow> f v)"

definition bind_kwargs ::
  "string \<Rightarrow> (string \<times> pyval option) list \<Rightarrow> (string \<times> pyval) list \<Rightarrow> exn + (string \<Rightarrow> pyval)" where
  "bind_kwargs f params kwargs =
     (case filter (\<lambda>kv. fst kv \<notin> set (map fst params)) kwargs of
        kv # _ \<Rightarrow> Inl (UnexpectedKeyword f (fst kv))
      | [] \<Rightarrow>
          (case filter (\<lambda>p. snd p = None \<and> fst p \<notin> set (map fst kwargs)) params of
             p # _ \<Rightarrow> Inl (MissingArgument f (fst p))
           | [] \<Rightarrow>
               Inr (\<lambda>name. case map_of kwargs name of
                              Some v \<Rightarrow> v
                            | None \<Rightarrow> (case map_of params name of
                                          Some (Some dflt) \<Rightarrow> dflt
                                        | _ \<Rightarrow> PNone))))"

text \<open>
  The values that reach the store must have the types of its columns and parameters; the
  store rejects a statement bound to a value of another type.
\<close>

definition as_uuid :: "pyval \<Rightarrow> exn + uuid" where
  "as_uuid v = (case v of PUuid u \<Rightarrow> Inr u | _ \<Rightarrow> Inl (InvalidRequest ''uuid expected''))"

definition as_str :: "pyval \<Rightarrow> exn + string" where
  "as_str v = (case v of PStr s \<Rightarrow> Inr s | _ \<Rightarrow> Inl (InvalidRequest ''text expected''))"

definition as_int :: "pyval \<Rightarrow> exn + int" where
  "as_int v = (case v of PInt i \<Rightarrow> Inr i | _ \<Rightarrow> Inl (InvalidRequest ''int expected''))"

definition as_datetime :: "pyval \<Rightarrow> exn + datetime" where
  "as_datetime v =
     (case v of PDatetime t \<Rightarrow> Inr t | _ \<Rightarrow> Inl (InvalidRequest ''timestamp expected''))"

definition as_optional_datetime :: "pyval \<Rightarrow> exn + datetime option" where
  "as_optional_datetime v =
     (case v of
        PNone \<Rightarrow> Inr None
      | PDatetime t \<Rightarrow> Inr (Some t)
      | _ \<Rightarrow> Inl (InvalidRequest ''timestamp expected''))"

definition create_message_params :: "(string \<times> pyval option) list" where
  "create_message_params =
     [(''sender_id'', None), (''conversation_id'', None), (''content'', None),
      (''timestamp'', Some PNone)]"

definition get_conversation_messages_params :: "(string \<times> pyval option) list" where
  "get_conversation_messages_params =
     [(''conversation_id'', None), (''limit'', Some (PInt 20)), (''before_ts'', Some PNone)]"

definition get_messages_before_timestamp_params :: "(string \<times> pyval option) list" where
  "get_messages_before_timestamp_params =
     [(''conversation_id'', None), (''before_timestamp'', None), (''limit'', Some (PInt 20))]"

definition create_message_kw ::
  "(string \<times> pyval) list \<Rightarrow> uuid \<Rightarrow> datetime \<Rightarrow> db \<Rightarrow> (exn + uuid) \<times> db" where
  "create_message_kw kwargs uuid4 utcnow d =
     (case bind_result (bind_kwargs ''create_message'' create_message_params kwargs) (\<lambda>a.
           bind_result (as_uuid (a ''sender_id'')) (\<lambda>sender.
           bind_result (as_uuid (a ''conversation_id'')) (\<lambda>cid.
           bind_result (as_str (a ''content'')) (\<lambda>text.
           bind_result (as_optional_datetime (a ''timestamp'')) (\<lambda>ts.
           Inr (sender, cid, text, ts)))))) of
        Inl e \<Rightarrow> (Inl e, d)
      | Inr (sender, cid, text, ts) \<Rightarrow>
          (Inr (fst (create_message sender cid text ts uuid4 utcnow d)),
           snd (create_message sender cid text ts uuid4 utcnow d)))"

definition get_conversation_messages_kw ::
  "(string \<times> pyval) list \<Rightarrow> datetime \<Rightarrow> db \<Rightarrow> exn + message_item list" where
  "get_conversation_messages_kw kwargs utcnow d =
     bind_result
       (bind_kwargs ''get_conversation_messages'' get_conversation_messages_params kwargs) (\<lambda>a.
     bind_result (as_uuid (a ''conversation_id'')) (\<lambda>cid.
     bind_result (as_int (a ''limit'')) (\<lambda>limit.
     bind_result (as_optional_datetime (a ''before_ts'')) (\<lambda>before_ts.
     get_conversation_messages cid limit before_ts utcnow d))))"

definition get_messages_before_timestamp_kw ::
  "(string \<times> pyval) list \<Rightarrow> datetime \<Rightarrow> db \<Rightarrow> exn + message_item list" where
  "get_messages_before_timestamp_kw kwargs utcnow d =
     bind_result
       (bind_kwargs ''get_messages_before_timestamp'' get_messages_before_timestamp_params
          kwargs) (\<lambda>a.
     bind_result (as_uuid (a ''conversation_id'')) (\<lambda>cid.
     bind_result (as_datetime (a ''before_timestamp'')) (\<lambda>before.
     bind_result (as_int (a ''limit'')) (\<lambda>limit.
     get_messages_before_timestamp cid before limit utcnow d))))"

section \<open>Response schemas\<close>

text \<open>
  The classes of \<^verbatim>\<open>schemas/conversation.py\<close>. A constructor gets \<open>None\<close> for a field that
  the call does not supply, and raises a validation error that lists the required fields
  among them. A keyword that is not a field of the class is ignored.
\<close>

record conversation_response =
  resp_conversation_id :: uuid
  resp_peer_id :: uuid
  resp_last_message_ts :: datetime
  resp_last_message_content :: "string option"

record paginated_conversation_response =
  resp_total :: int
  resp_page :: int
  resp_limit :: int
  resp_data :: "conversation_response list"

definition missing_field :: "string \<Rightarrow> 'a option \<Rightarrow> string list" where
  "missing_field name v = (case v of None \<Rightarrow> [name] | Some _ \<Rightarrow> [])"

definition ConversationResponse ::
  "uuid option \<Rightarrow> uuid option \<Rightarrow> datetime option \<Rightarrow> string option \<Rightarrow> exn + conversation_response" where
  "ConversationResponse cid peer ts text =
     (case (cid, peer, ts) of
        (Some c, Some p, Some t) \<Rightarrow>
          Inr \<lparr>resp_conversation_id = c, resp_peer_id = p, resp_last_message_ts = t,
               resp_last_message_content = text\<rparr>
      | _ \<Rightarrow>
          Inl (ValidationError ''ConversationResponse''
                 (missing_field ''conversation_id'' cid @ missing_field ''peer_id'' peer
                    @ missing_field ''last_message_ts'' ts)))"

definition PaginatedConversationResponse ::
  "int option \<Rightarrow> int option \<Rightarrow> int option \<Rightarrow> conversation_response list option
     \<Rightarrow> exn + paginated_conversation_response" where
  "PaginatedConversationResponse n_total page limit data =
     (case (n_total, page, limit, data) of
        (Some t, Some p, Some l, Some xs) \<Rightarrow>
          Inr \<lparr>resp_total = t, resp_page = p, resp_limit = l, resp_data = xs\<rparr>
      | _ \<Rightarrow>
          Inl (ValidationError ''PaginatedConversationResponse''
                 (missing_field ''total'' n_total @ missing_field ''page'' page
                    @ missing_field ''limit'' limit @ missing_field ''data'' data)))"

section \<open>ConversationController\<close>

text \<open>
  The controller reads the clock for \<^verbatim>\<open>before_ts\<close>; the model does not read it again,
  since it is given a bound. The response is built with the keywords
  \<^verbatim>\<open>conversations, page, limit, total\<close>, so its field \<^verbatim>\<open>data\<close> gets no value.
\<close>

definition ConversationController_get_user_conversations ::
  "uuid \<Rightarrow> int \<Rightarrow> int \<Rightarrow> datetime \<Rightarrow> db \<Rightarrow> exn + paginated_conversation_response" where
  "ConversationController_get_user_conversations uid page limit utcnow d =
     except_Exception ''An error occurred while retrieving conversations: ''
       (case get_user_conversations uid limit (Some utcnow) utcnow d of
          Inl e \<Rightarrow> Inl e
        | Inr conversations \<Rightarrow>
            if conversations = []
            then Inl (HTTPException HTTP_404_NOT_FOUND ''No conversations found for this user'' None)
            else PaginatedConversationResponse
                   (Some (int (length conversations))) (Some page) (Some limit) None)"

definition ConversationController_get_conversation ::
  "uuid \<Rightarrow> db \<Rightarrow> exn + conversation_response" where
  "ConversationController_get_conversation cid d =
     except_Exception ''An error occurred while retrieving the conversation: ''
       (case get_conversation cid d of
          None \<Rightarrow> Inl (HTTPException HTTP_404_NOT_FOUND ''Conversation not found'' None)
        | Some conversation \<Rightarrow>
            ConversationResponse (Some (fst conversation)) (Some (snd conversation)) None None)"

definition ConversationController_create_or_get_conversation ::
  "uuid \<Rightarrow> uuid \<Rightarrow> uuid \<Rightarrow> datetime \<Rightarrow> db \<Rightarrow> (exn + uuid) \<times> db" where
  "ConversationController_create_or_get_conversation user_a user_b uuid4 utcnow d =
     (except_Exception
        ''An error occurred while creating or retrieving the conversation: ''
        (Inr (fst (create_or_get_conversation user_a user_b uuid4 utcnow d))),
      snd (create_or_get_conversation user_a user_b uuid4 utcnow d))"

section \<open>MessageController\<close>

text \<open>
  The request body of \<^verbatim>\<open>send_message\<close>, with the attributes that the controller reads,
  and the response with the fields that it passes to \<^verbatim>\<open>MessageResponse\<close>.
\<close>

record message_create =
  req_sender_id :: uuid
  req_receiver_id :: uuid
  req_content :: string

record message_response =
  sent_message_id :: uuid
  sent_sender_id :: uuid
  sent_receiver_id :: uuid
  sent_content :: string
  sent_timestamp :: datetime

text \<open>
  After the message is created the controller asks \<^verbatim>\<open>MessageModel\<close> for
  \<^verbatim>\<open>get_message_by_id\<close>. The class has no attribute of that name, so the lookup raises
  and the rest of the \<^verbatim>\<open>try\<close> block is never run.
\<close>

definition MessageController_send_message ::
  "message_create \<Rightarrow> uuid \<Rightarrow> datetime \<Rightarrow> db \<Rightarrow> (exn + message_response) \<times> db" where
  "MessageController_send_message message_data uuid4 utcnow d =
     (case create_message_kw
             [(''sender_id'', PUuid (req_sender_id message_data)),
              (''receiver_id'', PUuid (req_receiver_id message_data)),
              (''content'', PStr (req_content message_data)),
              (''timestamp'', PDatetime utcnow)] uuid4 utcnow d of
        (Inl e, d') \<Rightarrow>
          (except_Exception ''An error occurred while sending the message: '' (Inl e), d')
      | (Inr mid, d') \<Rightarrow>
          (except_Exception ''An error occurred while sending the message: ''
             (Inl (AttributeError ''MessageModel'' ''get_message_by_id'')), d'))"

text \<open>
  \<^verbatim>\<open>PaginatedMessageResponse\<close> is declared in a module that is not among the sources; the
  two scans of the controller take its constructor as the parameter \<open>response\<close>, applied to
  the messages, the page, the limit and the total.
\<close>

definition MessageController_get_conversation_messages ::
  "(message_item list \<Rightarrow> int \<Rightarrow> int \<Rightarrow> int \<Rightarrow> exn + 'r) \<Rightarrow> uuid \<Rightarrow> int \<Rightarrow> int \<Rightarrow> datetime \<Rightarrow> db
     \<Rightarrow> exn + 'r" where
  "MessageController_get_conversation_messages response cid page limit utcnow d =
     except_Exception ''An error occurred while retrieving messages: ''
       (case get_conversation_messages_kw
               [(''conversation_id'', PUuid cid), (''page'', PInt page), (''limit'', PInt limit)]
               utcnow d of
          Inl e \<Rightarrow> Inl e
        | Inr msgs \<Rightarrow>
            if msgs = []
            then Inl (HTTPException HTTP_404_NOT_FOUND
                        ''No messages found for this conversation'' None)
            else response msgs page limit (int (length msgs)))"

definition MessageController_get_messages_before_timestamp ::
  "(message_item list \<Rightarrow> int \<Rightarrow> int \<Rightarrow> int \<Rightarrow> exn + 'r) \<Rightarrow> uuid \<Rightarrow> datetime \<Rightarrow> int \<Rightarrow> int
     \<Rightarrow> datetime \<Rightarrow> db \<Rightarrow> exn + 'r" where
  "MessageController_get_messages_before_timestamp response cid before_timestamp page limit
       utcnow d =
     except_Exception ''An error occurred while retrieving messages: ''
       (case get_messages_before_timestamp_kw
               [(''conversation_id'', PUuid cid), (''before_timestamp'', PDatetime before_timestamp),
                (''page'', PInt page), (''limit'', PInt limit)]
               utcnow d of
          Inl e \<Rightarrow> Inl e
        | Inr msgs \<Rightarrow>
            if msgs = []
            then Inl (HTTPException HTTP_404_NOT_FOUND
                        ''No messages found before the given timestamp'' None)
            else response msgs page limit (int (length msgs)))"

section \<open>Callers of the resolver\<close>




section \<open>Appending several messages\<close>

text \<open>
  A call of \<^verbatim>\<open>create_message\<close> on a conversation is given by the sender, the content and
  the optional timestamp, with the identifier and the clock reading that the call draws.
  \<open>append_all\<close> runs such calls one after the other; \<open>appended_row\<close> is the row that a call
  inserts, \<open>appended_at\<close> its timestamp, and \<open>message_item_of\<close> the dictionary that a scan
  returns for a row.
\<close>

type_synonym append_call = "uuid \<times> string \<times> datetime option \<times> uuid \<times> datetime"

fun append_all :: "uuid \<Rightarrow> append_call list \<Rightarrow> db \<Rightarrow> db" where
  "append_all cid [] d = d"
| "append_all cid ((sender, body, ts, uuid4, utcnow) # rest) d =
     append_all cid rest (snd (create_message sender cid body ts uuid4 utcnow d))"

fun appended_at :: "append_call \<Rightarrow> datetime" where
  "appended_at (sender, body, ts, uuid4, utcnow) = (case ts of Some t \<Rightarrow> t | None \<Rightarrow> utcnow)"

fun appended_row :: "uuid \<Rightarrow> append_call \<Rightarrow> message" where
  "appended_row cid (sender, body, ts, uuid4, utcnow) =
     \<lparr>message_id = uuid4, msg_conversation_id = cid, sender_id = sender, content = body,
      timestamp = (case ts of Some t \<Rightarrow> t | None \<Rightarrow> utcnow)\<rparr>"

definition message_item_of :: "message \<Rightarrow> message_item" where
  "message_item_of row =
     \<lparr>item_message_id = message_id row, item_sender_id = sender_id row,
      item_content = content row, item_timestamp = timestamp row\<rparr>"

section \<open>Paging through a conversation\<close>

text \<open>
  The bound of a scan is its cursor, or the clock when it has none; \<open>rows_below\<close> are the
  rows that the statement of \<^verbatim>\<open>get_conversation_messages\<close> selects before its
  \<^verbatim>\<open>LIMIT\<close>.

  \<open>paginate\<close> is the caller that pages through a conversation: it scans with the given
  cursor, stops at the first page that has fewer items than the limit, and otherwise scans
  again with the least timestamp of the page as the next cursor. It returns the pages in the
  order in which it got them.
\<close>

definition scan_bound :: "datetime option \<Rightarrow> datetime \<Rightarrow> datetime" where
  "scan_bound cursor utcnow = (case cursor of Some b \<Rightarrow> b | None \<Rightarrow> utcnow)"

definition rows_below :: "uuid \<Rightarrow> datetime \<Rightarrow> db \<Rightarrow> message list" where
  "rows_below cid bound d =
     order_by_desc timestamp
       (filter (\<lambda>r. msg_conversation_id r = cid \<and> timestamp r < bound) (messages d))"

lemma scan_result:
  "get_conversation_messages cid limit cursor utcnow d = Inr page \<longleftrightarrow>
     0 < limit \<and> page = map message_item_of (take (nat limit) (rows_below cid (scan_bound cursor utcnow) d))"
  by (auto simp: get_conversation_messages_def limit_rows_def message_item_of_def [abs_def]
      rows_below_def scan_bound_def)

lemma min_list_in: "xs \<noteq> [] \<Longrightarrow> min_list xs \<in> set (xs :: datetime list)"
  using Min_in [of "set xs"] by (simp add: min_list_Min)

lemma length_filter_strict:
  assumes "\<And>x. x \<in> set xs \<Longrightarrow> P x \<Longrightarrow> Q x"
    and "x \<in> set xs" and "Q x" and "\<not> P x"
  shows "length (filter P xs) < length (filter Q xs)"
proof -
  have "filter P xs = filter P (filter Q xs)"
    using assms(1) by (auto intro: filter_cong simp: )
  moreover have "x \<in> set (filter Q xs)" using assms(2,3) by simp
  then have "length (filter P (filter Q xs)) < length (filter Q xs)"
    using assms(4) by (rule_tac length_filter_less) auto
  ultimately show ?thesis by simp
qed

function paginate ::
  "uuid \<Rightarrow> int \<Rightarrow> datetime option \<Rightarrow> datetime \<Rightarrow> db \<Rightarrow> exn + message_item list list" where
  "paginate cid limit cursor utcnow d =
     (case get_conversation_messages cid limit cursor utcnow d of
        Inl e \<Rightarrow> Inl e
      | Inr page \<Rightarrow>
          if int (length page) < limit then Inr [page]
          else (case paginate cid limit (Some (min_list (map item_timestamp page))) utcnow d of
                  Inl e \<Rightarrow> Inl e
                | Inr pages \<Rightarrow> Inr (page # pages)))"
  by pat_completeness auto
termination
proof (relation "measure (\<lambda>(cid, limit, cursor, utcnow, d).
          length (filter (\<lambda>r. msg_conversation_id r = cid \<and> timestamp r < scan_bound cursor utcnow)
                    (messages d)))", goal_cases)
  case 1
  then show ?case by simp
next
  case (2 cid limit cursor utcnow d page)
  let ?b = "scan_bound cursor utcnow"
  let ?rows = "take (nat limit) (rows_below cid ?b d)"
  from 2 have pos: "0 < limit" and page: "page = map message_item_of ?rows"
    by (simp_all add: scan_result)
  from 2(2) pos have "0 < length page"
    by arith
  then have page_ne: "page \<noteq> []"
    by simp
  let ?m = "min_list (map item_timestamp page)"
  have "?m \<in> set (map item_timestamp page)"
    by (rule min_list_in) (simp add: page_ne)
  then obtain r where r: "r \<in> set ?rows" and m: "?m = timestamp r"
    by (auto simp: page message_item_of_def)
  from r have "r \<in> set (rows_below cid ?b d)"
    by (rule in_set_takeD)
  then have r_in: "r \<in> set (messages d)" and r_cid: "msg_conversation_id r = cid"
    and r_below: "timestamp r < ?b"
    by (simp_all add: rows_below_def order_by_desc_def)
  have "length (filter (\<lambda>x. msg_conversation_id x = cid \<and> timestamp x < ?m) (messages d))
      < length (filter (\<lambda>x. msg_conversation_id x = cid \<and> timestamp x < ?b) (messages d))"
    by (rule length_filter_strict [where x = r]) (use r_in r_cid r_below m in auto)
  then show ?case
    by (simp add: scan_bound_def)
qed

section \<open>Example stores\<close>

definition empty_db :: db where
  "empty_db = \<lparr>conversations_by_user = [], messages = []\<rparr>"

text \<open>
  Users 1 and 3 share conversation 10, users 2 and 4 share conversation 11, and
  conversation 10 holds four messages, at the instants 1, 2, 3 and 4.
\<close>

definition example_db :: db where
  "example_db =
     \<lparr>conversations_by_user =
        [\<lparr>user_id = 1, last_message_ts = 4, conversation_id = 10, peer_id = 3\<rparr>,
         \<lparr>user_id = 3, last_message_ts = 4, conversation_id = 10, peer_id = 1\<rparr>,
         \<lparr>user_id = 2, last_message_ts = 6, conversation_id = 11, peer_id = 4\<rparr>,
         \<lparr>user_id = 4, last_message_ts = 6, conversation_id = 11, peer_id = 2\<rparr>],
      messages =
        [\<lparr>message_id = 21, msg_conversation_id = 10, sender_id = 1, content = ''a'', timestamp = 1\<rparr>,
         \<lparr>message_id = 22, msg_conversation_id = 10, sender_id = 3, content = ''b'', timestamp = 2\<rparr>,
         \<lparr>message_id = 23, msg_conversation_id = 10, sender_id = 1, content = ''c'', timestamp = 3\<rparr>,
         \<lparr>message_id = 24, msg_conversation_id = 10, sender_id = 3, content = ''d'', timestamp = 4\<rparr>]\<rparr>"

section \<open>The two scan entry points\<close>

text \<open>
  C9. For every conversation id, timestamp bound and limit,
  \<^verbatim>\<open>get_messages_before_timestamp(conversation_id, before_timestamp, limit)\<close> returns what
  \<^verbatim>\<open>get_conversation_messages(conversation_id, limit, before_timestamp)\<close> returns, whatever
  the clock reads in either call.
\<close>

theorem get_messages_before_timestamp_delegates:
  "get_messages_before_timestamp cid before_timestamp limit utcnow d
     = get_conversation_messages cid limit (Some before_timestamp) utcnow' d"
  by (simp add: get_messages_before_timestamp_def get_conversation_messages_def)

section \<open>Sending a message through the controller\<close>

text \<open>
  C10. For every request, every fresh identifier, every clock reading and every store,
  \<^verbatim>\<open>MessageController.send_message\<close> ends in an HTTP 500 error made from the
  \<^verbatim>\<open>TypeError\<close> of the keyword \<^verbatim>\<open>receiver_id\<close>, which \<^verbatim>\<open>create_message\<close> does not
  declare, and the store it leaves is the store it was given: no message row is written.
\<close>

theorem send_message_always_fails_with_500_and_writes_nothing:
  "MessageController_send_message message_data uuid4 utcnow d =
     (Inl (HTTPException HTTP_500_INTERNAL_SERVER_ERROR
             ''An error occurred while sending the message: ''
             (Some (UnexpectedKeyword ''create_message'' ''receiver_id''))), d)"
  by (simp add: MessageController_send_message_def create_message_kw_def bind_kwargs_def
      create_message_params_def bind_result_def except_Exception_def)

section \<open>Looking up a conversation that does not exist\<close>

lemma get_conversation_controller_result:
  "ConversationController_get_conversation cid d =
     Inl (HTTPException HTTP_500_INTERNAL_SERVER_ERROR
            ''An error occurred while retrieving the conversation: ''
            (Some (case get_conversation cid d of
                     None \<Rightarrow> HTTPException HTTP_404_NOT_FOUND ''Conversation not found'' None
                   | Some c \<Rightarrow> ValidationError ''ConversationResponse'' [''last_message_ts''])))"
  by (simp add: ConversationController_get_conversation_def except_Exception_def
      ConversationResponse_def missing_field_def split: option.splits)

text \<open>
  C8. On a store in which no membership row has conversation id 12, the controller's
  lookup of conversation 12 raises its 404 and then catches it itself: what the caller gets
  is an HTTP 500, the status of an internal failure, with the 404 only inside its detail.
\<close>

theorem get_conversation_absent_is_reported_as_500:
  "get_conversation 12 example_db = None
   \<and> ConversationController_get_conversation 12 example_db =
       Inl (HTTPException 500 ''An error occurred while retrieving the conversation: ''
              (Some (HTTPException 404 ''Conversation not found'' None)))"
proof -
  have absent: "get_conversation 12 example_db = None"
    by (simp add: get_conversation_def example_db_def)
  show ?thesis
    using absent
    by (simp add: get_conversation_controller_result HTTP_500_INTERNAL_SERVER_ERROR_def
        HTTP_404_NOT_FOUND_def)
qed

section \<open>Scans that find nothing\<close>

lemma order_by_desc_Nil [simp]: "order_by_desc c [] = []"
  by (simp add: order_by_desc_def)

lemma message_controller_scan_result:
  "MessageController_get_conversation_messages response cid page limit utcnow d =
     Inl (HTTPException HTTP_500_INTERNAL_SERVER_ERROR
            ''An error occurred while retrieving messages: ''
            (Some (UnexpectedKeyword ''get_conversation_messages'' ''page'')))"
  by (simp add: MessageController_get_conversation_messages_def get_conversation_messages_kw_def
      bind_kwargs_def get_conversation_messages_params_def bind_result_def except_Exception_def)

text \<open>
  C3, as stated, fails: on the empty store the scan of user 1 finds no row and the scan of
  conversation 10 finds no message, and both controllers end in an HTTP error, not in a page
  with zero items.
\<close>

theorem empty_scan_is_an_error_at_the_controllers:
  "get_user_conversations 1 20 (Some 100) 100 empty_db = Inr []
   \<and> ConversationController_get_user_conversations 1 1 20 100 empty_db =
       Inl (HTTPException 500 ''An error occurred while retrieving conversations: ''
              (Some (HTTPException 404 ''No conversations found for this user'' None)))
   \<and> get_conversation_messages 10 20 None 100 empty_db = Inr []
   \<and> MessageController_get_conversation_messages (\<lambda>msgs page limit n. Inr msgs) 10 1 20 100
         empty_db =
       Inl (HTTPException 500 ''An error occurred while retrieving messages: ''
              (Some (UnexpectedKeyword ''get_conversation_messages'' ''page'')))"
  by (simp add: empty_db_def get_user_conversations_def get_conversation_messages_def
      limit_rows_def ConversationController_get_user_conversations_def except_Exception_def
      message_controller_scan_result HTTP_500_INTERNAL_SERVER_ERROR_def HTTP_404_NOT_FOUND_def)

text \<open>
  C3, amended. Let the bound of a scan be its cursor, or the reading of the clock when it is
  given no cursor. With a positive limit, the scan of a user none of whose rows lies below
  the bound and the scan of a conversation none of whose messages lies below the bound both
  return the empty list and raise nothing. The conversation controller, whose bound is the
  clock it reads, does not pass the empty list on: its guard raises the 404
  "No conversations found for this user", which goes through the handler of the enclosing
  \<^verbatim>\<open>try\<close>.
\<close>

theorem empty_scan_is_empty_list_in_the_model_and_404_guard_in_the_controller:
  assumes "0 < limit"
    and "bound = (case before_ts of Some b \<Rightarrow> b | None \<Rightarrow> utcnow)"
    and "\<forall>r \<in> set (conversations_by_user d). \<not> (user_id r = uid \<and> last_message_ts r < bound)"
    and "\<forall>m \<in> set (messages d). \<not> (msg_conversation_id m = cid \<and> timestamp m < bound)"
  shows "get_user_conversations uid limit before_ts utcnow d = Inr []
         \<and> get_conversation_messages cid limit before_ts utcnow d = Inr []
         \<and> ConversationController_get_user_conversations uid page limit bound d =
             except_Exception ''An error occurred while retrieving conversations: ''
               (Inl (HTTPException HTTP_404_NOT_FOUND ''No conversations found for this user''
                       None))"
proof -
  have no_rows:
    "filter (\<lambda>r. user_id r = uid \<and> last_message_ts r < bound) (conversations_by_user d) = []"
    using assms(3) by (simp add: filter_empty_conv)
  have no_msgs:
    "filter (\<lambda>m. msg_conversation_id m = cid \<and> timestamp m < bound) (messages d) = []"
    using assms(4) by (simp add: filter_empty_conv)
  have scan_users: "get_user_conversations uid limit before_ts utcnow d = Inr []"
    using assms(1) no_rows
    by (simp add: get_user_conversations_def assms(2) limit_rows_def)
  have scan_bound: "get_user_conversations uid limit (Some bound) bound d = Inr []"
    using assms(1) by (simp add: get_user_conversations_def no_rows limit_rows_def)
  have scan_msgs: "get_conversation_messages cid limit before_ts utcnow d = Inr []"
    using assms(1) no_msgs
    by (simp add: get_conversation_messages_def assms(2) limit_rows_def)
  show ?thesis
    by (simp add: scan_users scan_bound scan_msgs
        ConversationController_get_user_conversations_def)
qed

text \<open>
  In the example store user 1 has a row at the instant 4 and conversation 10 has messages at
  the instants 1 to 4: with no cursor and the clock at 1, none of them lies below the bound.
\<close>

theorem empty_scan_witness:
  "get_user_conversations 1 20 None 1 example_db = Inr []
   \<and> get_conversation_messages 10 20 None 1 example_db = Inr []
   \<and> ConversationController_get_user_conversations 1 1 20 1 example_db =
       except_Exception ''An error occurred while retrieving conversations: ''
         (Inl (HTTPException HTTP_404_NOT_FOUND ''No conversations found for this user'' None))
   \<and> get_user_conversations 1 20 None 5 example_db =
       Inr [\<lparr>item_conversation_id = 10, item_peer_id = 3, item_last_message_ts = 4\<rparr>]"
  using empty_scan_is_empty_list_in_the_model_and_404_guard_in_the_controller
          [where limit = 20 and bound = 1 and before_ts = None and utcnow = 1
             and d = example_db and uid = 1 and cid = 10 and page = 1]
  by (simp add: example_db_def get_user_conversations_def limit_rows_def order_by_desc_def)

section \<open>The cursor of a scan\<close>

lemma order_by_desc_sorted:
  "sorted_wrt (\<lambda>a b. c b \<le> c a) (order_by_desc c rows)"
proof -
  have "sorted (map (\<lambda>r. - c r) (sort_key (\<lambda>r. - c r) rows))"
    by (rule sorted_sort_key)
  then show ?thesis
    by (simp add: order_by_desc_def sorted_map)
qed

lemma set_order_by_desc [simp]: "set (order_by_desc c rows) = set rows"
  by (simp add: order_by_desc_def)

lemma user_scan_page:
  assumes "get_user_conversations uid limit (Some cursor) utcnow d = Inr page"
  shows "(\<forall>c \<in> set page. item_last_message_ts c < cursor)
         \<and> int (length page) \<le> limit
         \<and> sorted_wrt (\<lambda>a b. item_last_message_ts b \<le> item_last_message_ts a) page"
proof -
  define rows where
    "rows = order_by_desc last_message_ts
       (filter (\<lambda>r. user_id r = uid \<and> last_message_ts r < cursor) (conversations_by_user d))"
  define item where
    "item = (\<lambda>row::membership. \<lparr>item_conversation_id = conversation_id row, item_peer_id = peer_id row,
                     item_last_message_ts = last_message_ts row\<rparr>)"
  from assms have pos: "0 < limit" and page: "page = map item (take (nat limit) rows)"
    by (auto simp: get_user_conversations_def rows_def item_def limit_rows_def
        split: if_splits)
  have below: "\<forall>r \<in> set (take (nat limit) rows). last_message_ts r < cursor"
    by (auto simp: rows_def dest!: in_set_takeD)
  have "sorted_wrt (\<lambda>a b. last_message_ts b \<le> last_message_ts a) (take (nat limit) rows)"
    unfolding rows_def by (intro sorted_wrt_take order_by_desc_sorted)
  then have desc: "sorted_wrt (\<lambda>a b. item_last_message_ts b \<le> item_last_message_ts a) page"
    by (simp add: page sorted_wrt_map item_def)
  have len: "int (length page) \<le> limit"
    using pos by (simp add: page)
  from below desc len show ?thesis
    by (simp add: page item_def)
qed

lemma msg_scan_page:
  assumes "get_conversation_messages cid limit (Some cursor) utcnow d = Inr page"
  shows "(\<forall>m \<in> set page. item_timestamp m < cursor)
         \<and> int (length page) \<le> limit
         \<and> sorted_wrt (\<lambda>a b. item_timestamp b \<le> item_timestamp a) page"
proof -
  define rows where
    "rows = order_by_desc timestamp
       (filter (\<lambda>r. msg_conversation_id r = cid \<and> timestamp r < cursor) (messages d))"
  define item where
    "item = (\<lambda>row::message. \<lparr>item_message_id = message_id row, item_sender_id = sender_id row,
                     item_content = content row, item_timestamp = timestamp row\<rparr>)"
  from assms have pos: "0 < limit" and page: "page = map item (take (nat limit) rows)"
    by (auto simp: get_conversation_messages_def rows_def item_def limit_rows_def
        split: if_splits)
  have below: "\<forall>r \<in> set (take (nat limit) rows). timestamp r < cursor"
    by (auto simp: rows_def dest!: in_set_takeD)
  have "sorted_wrt (\<lambda>a b. timestamp b \<le> timestamp a) (take (nat limit) rows)"
    unfolding rows_def by (intro sorted_wrt_take order_by_desc_sorted)
  then have desc: "sorted_wrt (\<lambda>a b. item_timestamp b \<le> item_timestamp a) page"
    by (simp add: page sorted_wrt_map item_def)
  have len: "int (length page) \<le> limit"
    using pos by (simp add: page)
  from below desc len show ?thesis
    by (simp add: page item_def)
qed

lemma scans_return:
  "0 < limit \<Longrightarrow> \<exists>cpage mpage.
     get_user_conversations uid limit before_ts utcnow d = Inr cpage
     \<and> get_conversation_messages cid limit before_ts utcnow d = Inr mpage"
  by (simp add: get_user_conversations_def get_conversation_messages_def limit_rows_def)

text \<open>
  C5. A scan with an explicit cursor, of a user's conversations or of a conversation's
  messages, returns a page whenever the limit is positive; every page it returns holds at
  most \<open>limit\<close> items, each with a timestamp strictly below the cursor (so none at the
  cursor), in descending order of timestamp.
\<close>

theorem cursor_is_exclusive_upper_bound:
  "(0 < limit \<longrightarrow>
      (\<exists>cpage mpage.
         get_user_conversations uid limit (Some cursor) utcnow d = Inr cpage
         \<and> get_conversation_messages cid limit (Some cursor) utcnow d = Inr mpage))
   \<and> (\<forall>cpage. get_user_conversations uid limit (Some cursor) utcnow d = Inr cpage \<longrightarrow>
         (\<forall>c \<in> set cpage. item_last_message_ts c < cursor)
         \<and> int (length cpage) \<le> limit
         \<and> sorted_wrt (\<lambda>a b. item_last_message_ts b \<le> item_last_message_ts a) cpage)
   \<and> (\<forall>mpage. get_conversation_messages cid limit (Some cursor) utcnow d = Inr mpage \<longrightarrow>
         (\<forall>m \<in> set mpage. item_timestamp m < cursor)
         \<and> int (length mpage) \<le> limit
         \<and> sorted_wrt (\<lambda>a b. item_timestamp b \<le> item_timestamp a) mpage)"
  using scans_return [of limit uid "Some cursor" utcnow d cid] user_scan_page msg_scan_page
  by blast


theorem cursor_is_exclusive_upper_bound_witness:
  "get_conversation_messages 10 2 (Some 4) 0 example_db
     = Inr [\<lparr>item_message_id = 23, item_sender_id = 1, item_content = ''c'', item_timestamp = 3\<rparr>,
            \<lparr>item_message_id = 22, item_sender_id = 3, item_content = ''b'', item_timestamp = 2\<rparr>]
   \<and> get_user_conversations 1 2 (Some 5) 0 example_db
     = Inr [\<lparr>item_conversation_id = 10, item_peer_id = 3, item_last_message_ts = 4\<rparr>]
   \<and> get_user_conversations 1 2 (Some 4) 0 example_db = Inr []"
  using cursor_is_exclusive_upper_bound [of 2 1 4 0 example_db 10]
  by (simp add: get_conversation_messages_def get_user_conversations_def example_db_def
    limit_rows_def order_by_desc_def)

section \<open>The probe of the resolver\<close>

text \<open>
  C7. In the example store user 1 has one membership row, for conversation 10 with peer 3,
  and no row with peer 2. Resolving the pair (1, 2) returns conversation 10 and writes
  nothing: the probe takes the first row of either user's partition, whoever its peer is.
\<close>

theorem resolver_returns_conversation_with_another_peer:
  "create_or_get_conversation 1 2 99 50 example_db = (10, example_db)
   \<and> filter (\<lambda>r. user_id r = 1 \<and> peer_id r = 2) (conversations_by_user example_db) = []"
  by (simp add: create_or_get_conversation_def example_db_def)

section \<open>Appending a message\<close>








section \<open>Resolving a pair of users\<close>














section \<open>Scanning what was appended\<close>

lemma appended_row_simps [simp]:
  "msg_conversation_id (appended_row cid q) = cid"
  "timestamp (appended_row cid q) = appended_at q"
  by (cases q; simp)+

lemma messages_create_message:
  "messages (snd (create_message sender cid body ts fresh utcnow d))
     = insert_message (appended_row cid (sender, body, ts, fresh, utcnow)) (messages d)"
  by (simp add: create_message_def Let_def)

lemma insert_message_fresh_key:
  assumes "\<forall>m \<in> set tbl. \<not> (msg_conversation_id m = msg_conversation_id r \<and> timestamp m = timestamp r)"
  shows "insert_message r tbl = tbl @ [r]"
  using assms by (simp add: insert_message_def filter_id_conv)

lemma conversation_after_append_all:
  assumes "distinct (map appended_at reqs)"
    and "\<forall>m \<in> set (messages d). msg_conversation_id m = cid \<longrightarrow> timestamp m \<notin> set (map appended_at reqs)"
  shows "filter (\<lambda>m. msg_conversation_id m = cid) (messages (append_all cid reqs d))
           = filter (\<lambda>m. msg_conversation_id m = cid) (messages d) @ map (appended_row cid) reqs"
  using assms
proof (induction reqs arbitrary: d)
  case Nil
  then show ?case by simp
next
  case (Cons q reqs)
  obtain sender body ts fresh utcnow where q: "q = (sender, body, ts, fresh, utcnow)"
    by (cases q) auto
  let ?r = "appended_row cid q"
  let ?d1 = "snd (create_message sender cid body ts fresh utcnow d)"
  have fresh_key: "\<forall>m \<in> set (messages d).
      \<not> (msg_conversation_id m = msg_conversation_id ?r \<and> timestamp m = timestamp ?r)"
    using Cons.prems(2) by auto
  have tbl: "messages ?d1 = messages d @ [?r]"
    unfolding messages_create_message q [symmetric]
    by (rule insert_message_fresh_key [OF fresh_key])
  have d1: "\<forall>m \<in> set (messages ?d1). msg_conversation_id m = cid \<longrightarrow>
      timestamp m \<notin> set (map appended_at reqs)"
    using Cons.prems by (auto simp: tbl)
  have dist: "distinct (map appended_at reqs)"
    using Cons.prems(1) by simp
  have "filter (\<lambda>m. msg_conversation_id m = cid) (messages (append_all cid reqs ?d1))
      = filter (\<lambda>m. msg_conversation_id m = cid) (messages ?d1) @ map (appended_row cid) reqs"
    by (rule Cons.IH [OF dist d1])
  then show ?case
    by (simp add: q tbl del: appended_row.simps)
qed

lemma order_by_desc_strict:
  assumes "distinct (map c rows)"
  shows "sorted_wrt (\<lambda>a b. c b < c a) (order_by_desc c rows)"
proof -
  let ?f = "\<lambda>r. - c r"
  have inj: "inj_on ?f (set rows)"
    using assms by (auto simp: distinct_map inj_on_def)
  have "distinct rows"
    using assms by (simp add: distinct_map)
  then have "distinct (map ?f (sort_key ?f rows))"
    using inj by (simp add: distinct_map)
  moreover have "sorted (map ?f (sort_key ?f rows))"
    by (rule sorted_sort_key)
  ultimately have "sorted_wrt (<) (map ?f (sort_key ?f rows))"
    by (simp add: strict_sorted_iff)
  then show ?thesis
    by (simp add: order_by_desc_def sorted_wrt_map)
qed

lemma get_conversation_messages_page:
  "0 < limit \<Longrightarrow>
   get_conversation_messages cid limit before_ts utcnow d =
     Inr (map message_item_of
            (take (nat limit)
               (order_by_desc timestamp
                  (filter (\<lambda>r. msg_conversation_id r = cid
                                \<and> timestamp r < (case before_ts of Some b \<Rightarrow> b | None \<Rightarrow> utcnow))
                     (messages d)))))"
  by (simp add: get_conversation_messages_def limit_rows_def message_item_of_def [abs_def])

text \<open>
  C6, as stated, fails. Two messages appended to conversation 10 while the clock reads 5
  have the same key: the second replaces the first, and the scan with limit 2 returns one
  message. A message appended with a timestamp that is not before the clock of the scan is
  not returned either.
\<close>

theorem append_at_equal_timestamp_loses_a_message:
  "get_conversation_messages 10 2 None 100
     (append_all 10 [(1, ''hello'', None, 21, 5), (3, ''hi'', None, 22, 5)] empty_db)
     = Inr [\<lparr>item_message_id = 22, item_sender_id = 3, item_content = ''hi'', item_timestamp = 5\<rparr>]
   \<and> get_conversation_messages 10 1 None 100
         (append_all 10 [(1, ''hello'', Some 200, 21, 5)] empty_db) = Inr []"
  by (simp add: get_conversation_messages_def limit_rows_def order_by_desc_def empty_db_def
      create_message_def insert_message_def update_last_message_ts_def Let_def)

text \<open>
  C6, amended. Let a conversation hold no message, and let one or more messages be
  appended to it at pairwise distinct timestamps, all before the clock reading of the scan.
  The scan with no cursor and the number of appended messages as limit returns a page of
  exactly these messages, each once, in strictly descending order of timestamp.
\<close>

theorem scan_returns_appended_messages_with_distinct_timestamps:
  assumes fresh: "\<forall>m \<in> set (messages d). msg_conversation_id m \<noteq> cid"
    and dist: "distinct (map appended_at reqs)"
    and past: "\<forall>q \<in> set reqs. appended_at q < utcnow"
    and some: "reqs \<noteq> []"
  shows "\<exists>page.
           get_conversation_messages cid (int (length reqs)) None utcnow (append_all cid reqs d)
             = Inr page
           \<and> length page = length reqs
           \<and> set page = set (map (message_item_of \<circ> appended_row cid) reqs)
           \<and> sorted_wrt (\<lambda>x y. item_timestamp y < item_timestamp x) page"
proof -
  let ?rows = "map (appended_row cid) reqs"
  have none: "filter (\<lambda>m. msg_conversation_id m = cid) (messages d) = []"
    using fresh by (simp add: filter_empty_conv)
  have conv: "filter (\<lambda>m. msg_conversation_id m = cid) (messages (append_all cid reqs d)) = ?rows"
    using conversation_after_append_all [OF dist, of d cid] fresh by (simp add: none)
  have "filter (\<lambda>r. msg_conversation_id r = cid \<and> timestamp r < utcnow)
          (messages (append_all cid reqs d))
      = filter (\<lambda>r. timestamp r < utcnow)
          (filter (\<lambda>m. msg_conversation_id m = cid) (messages (append_all cid reqs d)))"
    by (simp add: conj_commute)
  also have "\<dots> = ?rows"
    unfolding conv using past by (simp add: filter_id_conv)
  finally have below: "filter (\<lambda>r. msg_conversation_id r = cid \<and> timestamp r < utcnow)
          (messages (append_all cid reqs d)) = ?rows" .
  let ?page = "map message_item_of (order_by_desc timestamp ?rows)"
  have pos: "0 < int (length reqs)"
    using some by simp
  have page: "get_conversation_messages cid (int (length reqs)) None utcnow (append_all cid reqs d)
      = Inr ?page"
    by (simp add: get_conversation_messages_page [OF pos] below order_by_desc_def)
  have ts: "map timestamp ?rows = map appended_at reqs"
    by simp
  have "sorted_wrt (\<lambda>a b. timestamp b < timestamp a) (order_by_desc timestamp ?rows)"
    by (rule order_by_desc_strict) (simp only: ts dist)
  then have desc: "sorted_wrt (\<lambda>x y. item_timestamp y < item_timestamp x) ?page"
    by (simp add: sorted_wrt_map message_item_of_def)
  have len: "length ?page = length reqs"
    by (simp add: order_by_desc_def)
  have elems: "set ?page = set (map (message_item_of \<circ> appended_row cid) reqs)"
    by (simp add: image_comp)
  from page len elems desc show ?thesis by blast
qed

theorem scan_returns_appended_messages_witness:
  "get_conversation_messages 11 2 None 7
     (append_all 11 [(2, ''hello'', None, 21, 5), (4, ''hi'', None, 22, 6)] example_db)
     = Inr [\<lparr>item_message_id = 22, item_sender_id = 4, item_content = ''hi'', item_timestamp = 6\<rparr>,
            \<lparr>item_message_id = 21, item_sender_id = 2, item_content = ''hello'',
             item_timestamp = 5\<rparr>]"
  using scan_returns_appended_messages_with_distinct_timestamps
    [of example_db 11 "[(2, ''hello'', None, 21, 5), (4, ''hi'', None, 22, 6)]" 7]
  by (simp add: get_conversation_messages_def limit_rows_def order_by_desc_def example_db_def
      create_message_def insert_message_def update_last_message_ts_def Let_def)

section \<open>Pagination\<close>

lemma strict_desc_filter_drop:
  assumes desc: "sorted_wrt (\<lambda>a b. f b < (f a :: datetime)) T" and "0 < L" and "L \<le> length T"
  shows "filter (\<lambda>r. f r < f (T ! (L - 1))) T = drop L T"
proof -
  have nth: "\<And>i j. i < j \<Longrightarrow> j < length T \<Longrightarrow> f (T ! j) < f (T ! i)"
    using desc by (simp add: sorted_wrt_iff_nth_less)
  have front: "filter (\<lambda>r. f r < f (T ! (L - 1))) (take L T) = []"
  proof -
    have "\<not> f r < f (T ! (L - 1))" if "r \<in> set (take L T)" for r
    proof -
      from that obtain i where i: "i < L" "i < length T" and r: "r = T ! i"
        by (auto simp: in_set_conv_nth)
      show ?thesis
      proof (cases "i = L - 1")
        case True
        then show ?thesis by (simp add: r)
      next
        case False
        with i have "i < L - 1" by arith
        then have "f (T ! (L - 1)) < f (T ! i)"
          using assms(2,3) by (intro nth) arith+
        then show ?thesis by (simp add: r)
      qed
    qed
    then show ?thesis by (simp add: filter_empty_conv)
  qed
  have rear: "filter (\<lambda>r. f r < f (T ! (L - 1))) (drop L T) = drop L T"
  proof -
    have "f r < f (T ! (L - 1))" if "r \<in> set (drop L T)" for r
    proof -
      from that obtain i where i: "i < length T - L" and r: "r = T ! (L + i)"
        by (auto simp: in_set_conv_nth)
      have "f (T ! (L + i)) < f (T ! (L - 1))"
        using assms(2,3) i by (intro nth) arith+
      then show ?thesis by (simp add: r)
    qed
    then show ?thesis by (simp add: filter_id_conv)
  qed
  have "filter (\<lambda>r. f r < f (T ! (L - 1))) T
      = filter (\<lambda>r. f r < f (T ! (L - 1))) (take L T @ drop L T)"
    by simp
  also have "\<dots> = drop L T"
    unfolding filter_append front rear by simp
  finally show ?thesis .
qed

lemma min_list_desc_last:
  "sorted_wrt (\<lambda>a b. b \<le> a) xs \<Longrightarrow> xs \<noteq> [] \<Longrightarrow> min_list xs = last (xs :: datetime list)"
proof (induction xs)
  case Nil
  then show ?case by simp
next
  case (Cons x xs)
  show ?case
  proof (cases xs)
    case Nil
    then show ?thesis by simp
  next
    case (Cons y ys)
    from Cons.prems(1) have "sorted_wrt (\<lambda>a b. b \<le> a) xs" and "last xs \<le> x"
      using Cons by auto
    then show ?thesis
      using Cons.IH Cons by (simp add: min_def)
  qed
qed

lemma rows_below_filter:
  assumes "m \<le> b"
  shows "rows_below cid m d = filter (\<lambda>r. timestamp r < m) (rows_below cid b d)"
proof -
  have "filter (\<lambda>r. timestamp r < m)
          (filter (\<lambda>r. msg_conversation_id r = cid \<and> timestamp r < b) (messages d))
      = filter (\<lambda>r. msg_conversation_id r = cid \<and> timestamp r < m) (messages d)"
    using assms by (auto intro: filter_cong)
  then show ?thesis
    by (simp add: rows_below_def order_by_desc_def filter_sort)
qed

lemma rows_below_strict:
  assumes "distinct (map timestamp (filter (\<lambda>r. msg_conversation_id r = cid) (messages d)))"
  shows "sorted_wrt (\<lambda>x y. timestamp y < timestamp x) (rows_below cid b d)"
proof -
  have "filter (\<lambda>r. msg_conversation_id r = cid \<and> timestamp r < b) (messages d)
      = filter (\<lambda>r. timestamp r < b) (filter (\<lambda>r. msg_conversation_id r = cid) (messages d))"
    by (simp add: conj_commute)
  moreover have "distinct (map timestamp (filter (\<lambda>r. timestamp r < b)
      (filter (\<lambda>r. msg_conversation_id r = cid) (messages d))))"
    using assms by (rule distinct_map_filter)
  ultimately have "distinct (map timestamp
      (filter (\<lambda>r. msg_conversation_id r = cid \<and> timestamp r < b) (messages d)))"
    by (simp only:)
  then show ?thesis
    unfolding rows_below_def by (rule order_by_desc_strict)
qed

lemma item_timestamp_of_rows [simp]:
  "map item_timestamp (map message_item_of rows) = map timestamp rows"
  by (simp add: message_item_of_def)

lemma next_cursor_rows:
  assumes dist: "distinct (map timestamp (filter (\<lambda>r. msg_conversation_id r = cid) (messages d)))"
    and L: "0 < L" "L \<le> length (rows_below cid b d)"
  shows "rows_below cid
           (min_list (map item_timestamp (map message_item_of (take L (rows_below cid b d))))) d
         = drop L (rows_below cid b d)"
proof -
  let ?T = "rows_below cid b d"
  have strict: "sorted_wrt (\<lambda>x y. timestamp y < timestamp x) ?T"
    by (rule rows_below_strict [OF dist])
  then have "sorted_wrt (\<lambda>x y. timestamp y \<le> timestamp x) (take L ?T)"
    by (intro sorted_wrt_take) (erule sorted_wrt_mono_rel [rotated], simp)
  then have desc: "sorted_wrt (\<lambda>a b. b \<le> a) (map timestamp (take L ?T))"
    by (simp add: sorted_wrt_map)
  have ne: "take L ?T \<noteq> []"
    using L by auto
  have "min_list (map timestamp (take L ?T)) = last (map timestamp (take L ?T))"
    using desc ne by (intro min_list_desc_last) simp_all
  also have "\<dots> = timestamp (?T ! (L - 1))"
    using L ne by (simp add: last_map last_conv_nth min_def)
  finally have m: "min_list (map item_timestamp (map message_item_of (take L ?T)))
      = timestamp (?T ! (L - 1))"
    unfolding item_timestamp_of_rows .
  have "?T ! (L - 1) \<in> set ?T"
    using L by (intro nth_mem) arith
  then have below: "timestamp (?T ! (L - 1)) \<le> b"
    by (simp add: rows_below_def)
  show ?thesis
    unfolding m rows_below_filter [OF below]
    by (rule strict_desc_filter_drop [OF strict L])
qed

lemma paginate_from_cursor:
  assumes dist: "distinct (map timestamp (filter (\<lambda>r. msg_conversation_id r = cid) (messages d)))"
    and pos: "0 < limit"
  shows "\<exists>pages.
           paginate cid limit cursor utcnow d = Inr pages
           \<and> concat pages = map message_item_of (rows_below cid (scan_bound cursor utcnow) d)
           \<and> length pages = length (rows_below cid (scan_bound cursor utcnow) d) div nat limit + 1
           \<and> (\<forall>i < length (rows_below cid (scan_bound cursor utcnow) d) div nat limit.
                 length (pages ! i) = nat limit)
           \<and> length (last pages) = length (rows_below cid (scan_bound cursor utcnow) d) mod nat limit"
proof (induction "length (rows_below cid (scan_bound cursor utcnow) d)" arbitrary: cursor
    rule: less_induct)
  case less
  let ?T = "rows_below cid (scan_bound cursor utcnow) d"
  let ?L = "nat limit"
  let ?page = "map message_item_of (take ?L ?T)"
  have Lpos: "0 < ?L" using pos by simp
  have scan: "get_conversation_messages cid limit cursor utcnow d = Inr ?page"
    using pos by (simp add: scan_result)
  show ?case
  proof (cases "length ?T < ?L")
    case True
    then have short: "int (length ?page) < limit"
      by simp
    have "paginate cid limit cursor utcnow d = Inr [?page]"
      by (subst paginate.simps) (simp only: scan sum.case short if_True)
    then show ?thesis
      using True by simp
  next
    case False
    then have L: "?L \<le> length ?T" by simp
    then have full: "\<not> int (length ?page) < limit"
      using pos by simp
    let ?m = "min_list (map item_timestamp ?page)"
    have bound_m: "scan_bound (Some ?m) utcnow = ?m"
      by (simp add: scan_bound_def)
    have next_rows: "rows_below cid (scan_bound (Some ?m) utcnow) d = drop ?L ?T"
      unfolding bound_m by (rule next_cursor_rows [OF dist Lpos L])
    have smaller: "length (rows_below cid (scan_bound (Some ?m) utcnow) d) < length ?T"
      unfolding next_rows using Lpos L by simp
    from less [OF smaller] obtain pages where
      rest: "paginate cid limit (Some ?m) utcnow d = Inr pages"
      and cat: "concat pages = map message_item_of (drop ?L ?T)"
      and len: "length pages = (length ?T - ?L) div ?L + 1"
      and each: "\<forall>i < (length ?T - ?L) div ?L. length (pages ! i) = ?L"
      and final: "length (last pages) = (length ?T - ?L) mod ?L"
      unfolding next_rows by auto
    have run: "paginate cid limit cursor utcnow d = Inr (?page # pages)"
      by (subst paginate.simps) (simp only: scan sum.case full if_False rest)
    have ne: "pages \<noteq> []"
      using len by auto
    have div: "length ?T div ?L = (length ?T - ?L) div ?L + 1"
      using L Lpos by (simp add: le_div_geq)
    have mod: "length ?T mod ?L = (length ?T - ?L) mod ?L"
      using L by (simp add: le_mod_geq)
    have c1: "concat (?page # pages) = map message_item_of ?T"
      unfolding concat.simps cat map_append [symmetric] by simp
    have c2: "length (?page # pages) = length ?T div ?L + 1"
      by (simp add: len div)
    have c3: "\<forall>i < length ?T div ?L. length ((?page # pages) ! i) = ?L"
    proof (intro allI impI)
      fix i assume i: "i < length ?T div ?L"
      show "length ((?page # pages) ! i) = ?L"
      proof (cases i)
        case 0
        then show ?thesis using L by simp
      next
        case (Suc j)
        with i div have "j < (length ?T - ?L) div ?L" by simp
        with each show ?thesis by (simp add: Suc)
      qed
    qed
    have c4: "length (last (?page # pages)) = length ?T mod ?L"
      using ne final by (simp add: mod)
    from run c1 c2 c3 c4 show ?thesis by blast
  qed
qed

lemma ceil_div:
  assumes "0 < (L::nat)"
  shows "(N + L - 1) div L = N div L + (if N mod L = 0 then 0 else 1)"
proof -
  have N: "N = N div L * L + N mod L" by simp
  have r: "N mod L < L" using assms by simp
  have "N + L - 1 = N div L * L + (N mod L + L - 1)"
    using div_mult_mod_eq [of N L] assms by linarith
  then have "(N + L - 1) div L = (N div L * L + (N mod L + L - 1)) div L"
    by (rule arg_cong)
  also have "\<dots> = N div L + (N mod L + L - 1) div L"
    by (rule div_mult_self3) (use assms in simp)
  also have "(N mod L + L - 1) div L = (if N mod L = 0 then 0 else 1)"
  proof (cases "N mod L = 0")
    case True
    then show ?thesis using assms by simp
  next
    case False
    then have "L \<le> N mod L + L - 1" "N mod L + L - 1 < 2 * L"
      using r by arith+
    then have "(N mod L + L - 1) div L = Suc ((N mod L + L - 1 - L) div L)"
      and "N mod L + L - 1 - L < L"
      using assms by (simp_all add: le_div_geq)
    then have "(N mod L + L - 1) div L = 1"
      by simp
    then show ?thesis using False by simp
  qed
  finally show ?thesis .
qed

text \<open>
  C2, as stated, fails. Conversation 10 of the example store holds N = 4 messages and the
  page size is L = 2: the two pages that hold the messages are both full, and the page with
  fewer than L items is a third, empty one; there is no final short page among
  \<open>ceil(N/L) = 2\<close> pages.
\<close>

theorem pagination_of_four_messages_by_two_takes_three_pages:
  "paginate 10 2 None 100 example_db =
     Inr [[\<lparr>item_message_id = 24, item_sender_id = 3, item_content = ''d'', item_timestamp = 4\<rparr>,
           \<lparr>item_message_id = 23, item_sender_id = 1, item_content = ''c'', item_timestamp = 3\<rparr>],
          [\<lparr>item_message_id = 22, item_sender_id = 3, item_content = ''b'', item_timestamp = 2\<rparr>,
           \<lparr>item_message_id = 21, item_sender_id = 1, item_content = ''a'', item_timestamp = 1\<rparr>],
          []]"
  by (simp add: get_conversation_messages_def limit_rows_def order_by_desc_def example_db_def)

lemma distinct_items:
  "distinct (map timestamp rows) \<Longrightarrow> distinct (map message_item_of rows)"
proof (induction rows)
  case Nil
  then show ?case by simp
next
  case (Cons r rows)
  have "message_item_of r \<notin> message_item_of ` set rows"
  proof
    assume "message_item_of r \<in> message_item_of ` set rows"
    then obtain x where x: "x \<in> set rows" and eq: "message_item_of r = message_item_of x"
      by auto
    from eq have "item_timestamp (message_item_of r) = item_timestamp (message_item_of x)"
      by simp
    then have "timestamp r = timestamp x"
      by (simp add: message_item_of_def)
    with x Cons.prems show False by auto
  qed
  with Cons show ?case by simp
qed

lemma nonempty_pages_count:
  assumes L: "0 < L"
    and len: "length pages = N div L + 1"
    and each: "\<forall>i < N div L. length (pages ! i) = L"
    and final: "length (last pages) = N mod L"
  shows "length (filter (\<lambda>p. p \<noteq> []) pages) = (N + L - 1) div L"
proof -
  have ne: "pages \<noteq> []" using len by auto
  have front: "filter (\<lambda>p. p \<noteq> []) (butlast pages) = butlast pages"
  proof -
    have "p \<noteq> []" if "p \<in> set (butlast pages)" for p
    proof -
      from that obtain i where i: "i < length (butlast pages)" and p: "p = butlast pages ! i"
        by (auto simp: in_set_conv_nth)
      from i have "i < N div L" by (simp add: len)
      with each have "length (pages ! i) = L" by simp
      moreover have "butlast pages ! i = pages ! i"
        using i by (simp add: nth_butlast)
      ultimately show ?thesis using L p by auto
    qed
    then show ?thesis by (simp add: filter_id_conv)
  qed
  have final_empty: "(last pages = []) = (N mod L = 0)"
    using final by (cases "last pages") simp_all
  have "filter (\<lambda>p. p \<noteq> []) (butlast pages @ [last pages])
      = butlast pages @ filter (\<lambda>p. p \<noteq> []) [last pages]"
    unfolding filter_append front ..
  moreover have "butlast pages @ [last pages] = pages"
    using ne by (rule append_butlast_last_id)
  ultimately have "filter (\<lambda>p. p \<noteq> []) pages
      = butlast pages @ filter (\<lambda>p. p \<noteq> []) [last pages]"
    by (simp only:)
  then have "length (filter (\<lambda>p. p \<noteq> []) pages)
      = N div L + (if N mod L = 0 then 0 else 1)"
    by (simp add: len final_empty)
  then show ?thesis
    by (simp only: ceil_div [OF L])
qed

text \<open>
  C2, amended. Let the messages of a conversation have pairwise distinct timestamps, all
  before the clock of the first scan, let there be \<open>N\<close> of them, and let the page size
  \<open>L\<close> be positive. Paging from no cursor ends; the pages, one after the other, are the
  messages of the conversation in descending order of timestamp, each message once; there
  are \<open>N div L + 1\<close> pages, of which the first \<open>N div L\<close> hold \<open>L\<close> items each and the
  last holds the remaining \<open>N mod L\<close> items; the pages that are not empty are
  \<open>ceil(N/L)\<close> in number.
\<close>

theorem pagination_returns_every_message_once:
  assumes dist: "distinct (map timestamp (filter (\<lambda>m. msg_conversation_id m = cid) (messages d)))"
    and past: "\<forall>m \<in> set (messages d). msg_conversation_id m = cid \<longrightarrow> timestamp m < utcnow"
    and pos: "0 < limit"
    and N: "N = length (filter (\<lambda>m. msg_conversation_id m = cid) (messages d))"
    and L: "L = nat limit"
  shows "\<exists>pages.
           paginate cid limit None utcnow d = Inr pages
           \<and> concat pages = map message_item_of
                (order_by_desc timestamp (filter (\<lambda>m. msg_conversation_id m = cid) (messages d)))
           \<and> distinct (concat pages)
           \<and> length pages = N div L + 1
           \<and> (\<forall>i < N div L. length (pages ! i) = L)
           \<and> length (last pages) = N mod L
           \<and> length (filter (\<lambda>p. p \<noteq> []) pages) = (N + L - 1) div L"
proof -
  let ?conv = "filter (\<lambda>m. msg_conversation_id m = cid) (messages d)"
  have "filter (\<lambda>r. msg_conversation_id r = cid \<and> timestamp r < utcnow) (messages d) = ?conv"
    by (rule filter_cong) (use past in auto)
  then have rows: "rows_below cid (scan_bound None utcnow) d = order_by_desc timestamp ?conv"
    by (simp add: rows_below_def scan_bound_def)
  have len: "length (order_by_desc timestamp ?conv) = N"
    by (simp add: order_by_desc_def N)
  from paginate_from_cursor [OF dist pos, of None utcnow] obtain pages where
    run: "paginate cid limit None utcnow d = Inr pages"
    and cat: "concat pages = map message_item_of (order_by_desc timestamp ?conv)"
    and count: "length pages = N div L + 1"
    and each: "\<forall>i < N div L. length (pages ! i) = L"
    and final: "length (last pages) = N mod L"
    unfolding rows len L by auto
  have "distinct (map timestamp (order_by_desc timestamp ?conv))"
    using dist by (simp add: order_by_desc_def distinct_map)
  then have once: "distinct (concat pages)"
    unfolding cat by (rule distinct_items)
  have Lpos: "0 < L" using pos by (simp add: L)
  have nonempty: "length (filter (\<lambda>p. p \<noteq> []) pages) = (N + L - 1) div L"
    by (rule nonempty_pages_count [OF Lpos count each final])
  from run cat once count each final nonempty show ?thesis by blast
qed

theorem pagination_returns_every_message_once_witness:
  "paginate 10 3 None 100 example_db =
     Inr [[\<lparr>item_message_id = 24, item_sender_id = 3, item_content = ''d'', item_timestamp = 4\<rparr>,
           \<lparr>item_message_id = 23, item_sender_id = 1, item_content = ''c'', item_timestamp = 3\<rparr>,
           \<lparr>item_message_id = 22, item_sender_id = 3, item_content = ''b'', item_timestamp = 2\<rparr>],
          [\<lparr>item_message_id = 21, item_sender_id = 1, item_content = ''a'', item_timestamp = 1\<rparr>]]"
proof -
  have dist: "distinct (map timestamp
      (filter (\<lambda>m. msg_conversation_id m = 10) (messages example_db)))"
    by (simp add: example_db_def)
  have past: "\<forall>m \<in> set (messages example_db). msg_conversation_id m = 10 \<longrightarrow> timestamp m < 100"
    by (simp add: example_db_def)
  have pos: "(0::int) < 3"
    by simp
  have N: "(4::nat) = length (filter (\<lambda>m. msg_conversation_id m = 10) (messages example_db))"
    by (simp add: example_db_def)
  have L: "(3::nat) = nat 3"
    by simp
  have run: ?thesis
    by (simp add: get_conversation_messages_def limit_rows_def order_by_desc_def example_db_def)
  from pagination_returns_every_message_once [OF dist past pos N L] show ?thesis
    by - (rule run)
qed

end
